theory Spec2Isabelle
  imports Main
begin

section \<open>JavaScript values\<close>

text \<open>
  The server is JavaScript. The values that reach the validation utilities (query
  parameters, JSON request bodies, the arguments the unit tests pass) are modelled by one
  datatype. A number is carried as the integer it denotes: the counters and page numbers of
  this program are integers, and JavaScript arithmetic on them is exact as long as they stay
  below \<open>2 ^ 53\<close> in absolute value, which is the range the model speaks about. Strings are
  taken over the ASCII characters, whose white space is tab, line feed, vertical tab, form
  feed, carriage return and space. An object is the list of its own enumerable properties
  in property order.
\<close>

datatype json =
    JUndefined
  | JNull
  | JBool bool
  | JNum int
  | JStr string
  | JArr "json list"
  | JObj "(string \<times> json) list"

subsection \<open>Decimal and hexadecimal digits\<close>

definition digit_char :: "nat \<Rightarrow> char" where
  "digit_char d = char_of (48 + d)"

fun digits_of :: "nat \<Rightarrow> string" where
  "digits_of n = (if n < 10 then [digit_char n] else digits_of (n div 10) @ [digit_char (n mod 10)])"

declare digits_of.simps [simp del]

definition is_digit :: "char \<Rightarrow> bool" where
  "is_digit c = (48 \<le> (of_char c :: nat) \<and> (of_char c :: nat) \<le> 57)"

definition is_hex_digit :: "char \<Rightarrow> bool" where
  "is_hex_digit c =
     (let k = (of_char c :: nat)
      in (48 \<le> k \<and> k \<le> 57) \<or> (65 \<le> k \<and> k \<le> 70) \<or> (97 \<le> k \<and> k \<le> 102))"

definition digit_val :: "char \<Rightarrow> nat" where
  "digit_val c =
     (let k = (of_char c :: nat)
      in if 48 \<le> k \<and> k \<le> 57 then k - 48
         else if 65 \<le> k \<and> k \<le> 70 then k - 55
         else k - 87)"

definition digits_value :: "nat \<Rightarrow> string \<Rightarrow> nat" where
  "digits_value radix ds = foldl (\<lambda>acc c. acc * radix + digit_val c) 0 ds"

subsection \<open>ToString\<close>

text \<open>
  \<open>String(v)\<close> as \<open>parseInt\<close> applies it to its argument. An array prints its elements
  separated by commas, with \<open>null\<close> and \<open>undefined\<close> elements printed as the empty string.
\<close>

definition number_to_string :: "int \<Rightarrow> string" where
  "number_to_string n = (if n < 0 then CHR ''-'' # digits_of (nat (- n)) else digits_of (nat n))"

fun join_with :: "string \<Rightarrow> string list \<Rightarrow> string" where
  "join_with sep [] = []"
| "join_with sep [s] = s"
| "join_with sep (s # t # ss) = s @ sep @ join_with sep (t # ss)"

fun js_toString :: "json \<Rightarrow> string" where
  "js_toString JUndefined = ''undefined''"
| "js_toString JNull = ''null''"
| "js_toString (JBool b) = (if b then ''true'' else ''false'')"
| "js_toString (JNum n) = number_to_string n"
| "js_toString (JStr s) = s"
| "js_toString (JArr xs) =
     join_with '','' (map (\<lambda>x. if x = JUndefined \<or> x = JNull then [] else js_toString x) xs)"
| "js_toString (JObj kvs) = ''[object Object]''"

subsection \<open>parseInt\<close>

text \<open>
  \<open>parseInt(v)\<close> with no radix: the argument is converted to a string, leading white space
  is skipped, an optional sign is read, a \<open>0x\<close> or \<open>0X\<close> prefix selects radix 16, and the
  longest prefix of digits is the value. With no digit the result is \<open>NaN\<close>, here
  \<open>None\<close>.
\<close>

definition is_space :: "char \<Rightarrow> bool" where
  "is_space c = ((of_char c :: nat) \<in> {9, 10, 11, 12, 13, 32})"

definition has_hex_prefix :: "string \<Rightarrow> bool" where
  "has_hex_prefix s = (take 2 s = ''0x'' \<or> take 2 s = ''0X'')"

definition parseInt_string :: "string \<Rightarrow> int option" where
  "parseInt_string s =
     (let s1 = dropWhile is_space s;
          neg = (take 1 s1 = ''-'');
          s2 = (if take 1 s1 = ''-'' \<or> take 1 s1 = ''+'' then drop 1 s1 else s1);
          hex = has_hex_prefix s2;
          s3 = (if hex then drop 2 s2 else s2);
          ds = (if hex then takeWhile is_hex_digit s3 else takeWhile is_digit s3);
          v = int (digits_value (if hex then 16 else 10) ds)
      in if ds = [] then None else Some (if neg then - v else v))"

definition parseInt :: "json \<Rightarrow> int option" where
  "parseInt v = parseInt_string (js_toString v)"

text \<open>
  \<open>x || d\<close> for a number \<open>x\<close>: the default \<open>d\<close> replaces the falsy numbers \<open>NaN\<close> and
  \<open>0\<close>.
\<close>

definition or_default :: "int option \<Rightarrow> int \<Rightarrow> int" where
  "or_default x d = (case x of None \<Rightarrow> d | Some n \<Rightarrow> if n = 0 then d else n)"

section \<open>Validation utilities\<close>

record pagination =
  page :: int
  limit :: int

text \<open>
  \<open>validatePagination\<close>; a thrown \<open>Error(message)\<close> is \<open>Inl message\<close>.
\<close>

definition validatePagination :: "json \<Rightarrow> json \<Rightarrow> string + pagination" where
  "validatePagination p l =
     (let pageNum = or_default (parseInt p) 1;
          limitNum = or_default (parseInt l) 10
      in if pageNum < 1 then Inl ''Page number must be greater than 0''
         else if limitNum < 1 \<or> limitNum > 100 then Inl ''Limit must be between 1 and 100''
         else Inr \<lparr>page = pageNum, limit = limitNum\<rparr>)"

subsection \<open>Strings and regular-expression replacements of sanitizeInput\<close>

definition to_lower :: "char \<Rightarrow> char" where
  "to_lower c =
     (let k = (of_char c :: nat) in if 65 \<le> k \<and> k \<le> 90 then char_of (k + 32) else c)"

definition is_word_char :: "char \<Rightarrow> bool" where
  "is_word_char c =
     (let k = (of_char c :: nat)
      in (48 \<le> k \<and> k \<le> 57) \<or> (65 \<le> k \<and> k \<le> 90) \<or> (97 \<le> k \<and> k \<le> 122) \<or> k = 95)"

text \<open>\<open>String.prototype.trim\<close>.\<close>

definition trim :: "string \<Rightarrow> string" where
  "trim s = rev (dropWhile is_space (rev (dropWhile is_space s)))"

text \<open>
  \<open>ci_prefix pat s\<close>: the lower-case literal \<open>pat\<close> matches at the start of \<open>s\<close> under
  the \<open>i\<close> flag.
\<close>

definition ci_prefix :: "string \<Rightarrow> string \<Rightarrow> bool" where
  "ci_prefix pat s = (take (length pat) (map to_lower s) = pat)"

text \<open>\<open>.replace(/[<>]/g, '')\<close>\<close>

definition remove_angle_brackets :: "string \<Rightarrow> string" where
  "remove_angle_brackets s = filter (\<lambda>c. c \<noteq> CHR ''<'' \<and> c \<noteq> CHR ''>'') s"

text \<open>
  \<open>.replace(/javascript:/gi, '')\<close>: a global replace scans from the left and resumes
  after each match.
\<close>

fun remove_javascript :: "string \<Rightarrow> string" where
  "remove_javascript [] = []"
| "remove_javascript (c # cs) =
     (if ci_prefix ''javascript:'' (c # cs) then remove_javascript (drop 10 cs)
      else c # remove_javascript cs)"

text \<open>
  \<open>.replace(/on\w+=/gi, '')\<close>: \<open>\w+\<close> is greedy and \<open>=\<close> is not a word character, so
  a match at a position is \<open>on\<close>, the whole run of word characters that follows (at least
  one), and \<open>=\<close>. \<open>event_handler_len s\<close> is the length of the match at the start of
  \<open>s\<close>.
\<close>

definition event_handler_len :: "string \<Rightarrow> nat option" where
  "event_handler_len s =
     (let w = takeWhile is_word_char (drop 2 s)
      in if ci_prefix ''on'' s \<and> w \<noteq> [] \<and> take 1 (drop (2 + length w) s) = ''=''
         then Some (3 + length w) else None)"

fun remove_event_handlers :: "string \<Rightarrow> string" where
  "remove_event_handlers [] = []"
| "remove_event_handlers (c # cs) =
     (case event_handler_len (c # cs) of
        Some n \<Rightarrow> remove_event_handlers (drop (n - 1) cs)
      | None \<Rightarrow> c # remove_event_handlers cs)"

text \<open>
  \<open>.replace(/<script\b[^<]*(?:(?!<\/script>)<[^<]*)*<\/script>/gi, '')\<close>: a match starts
  with \<open><script\<close> at a word boundary and runs to the end of the first \<open></script>\<close>
  after it, since the repeated group cannot step over a \<open><\<close> that opens the closing tag.
\<close>

fun find_ci :: "string \<Rightarrow> string \<Rightarrow> nat option" where
  "find_ci pat [] = (if pat = [] then Some 0 else None)"
| "find_ci pat (c # cs) =
     (if ci_prefix pat (c # cs) then Some 0 else map_option Suc (find_ci pat cs))"

definition script_block_len :: "string \<Rightarrow> nat option" where
  "script_block_len s =
     (if ci_prefix ''<script'' s \<and> \<not> (case drop 7 s of [] \<Rightarrow> False | c # _ \<Rightarrow> is_word_char c)
      then map_option (\<lambda>j. 7 + j + 9) (find_ci ''</script>'' (drop 7 s))
      else None)"

fun remove_script_blocks :: "string \<Rightarrow> string" where
  "remove_script_blocks [] = []"
| "remove_script_blocks (c # cs) =
     (case script_block_len (c # cs) of
        Some n \<Rightarrow> remove_script_blocks (drop (n - 1) cs)
      | None \<Rightarrow> c # remove_script_blocks cs)"

definition sanitize_string :: "string \<Rightarrow> string" where
  "sanitize_string s =
     remove_script_blocks (remove_event_handlers (remove_javascript (remove_angle_brackets (trim s))))"

subsection \<open>sanitizeInput\<close>

text \<open>
  A string is cleaned; an array or an object (\<open>typeof data === 'object'\<close>, not \<open>null\<close>)
  is rebuilt as a fresh plain object from \<open>Object.entries(data)\<close>, whose keys for an array
  are its indices in decimal; anything else is returned as it is. The assignment
  \<open>sanitized['__proto__'] = v\<close> reaches the prototype setter and creates no own property,
  so that key is absent from the result (property reads through a prototype set this way
  are not modelled).
\<close>

definition index_keys :: "nat \<Rightarrow> string list" where
  "index_keys n = map digits_of [0..<n]"

fun sanitizeInput :: "json \<Rightarrow> json" where
  "sanitizeInput (JStr s) = JStr (sanitize_string s)"
| "sanitizeInput (JArr xs) = JObj (zip (index_keys (length xs)) (map sanitizeInput xs))"
| "sanitizeInput (JObj kvs) =
     JObj (map (\<lambda>kv. (fst kv, sanitizeInput (snd kv))) (filter (\<lambda>kv. fst kv \<noteq> ''__proto__'') kvs))"
| "sanitizeInput JUndefined = JUndefined"
| "sanitizeInput JNull = JNull"
| "sanitizeInput (JBool b) = JBool b"
| "sanitizeInput (JNum n) = JNum n"

text \<open>Property read \<open>obj.key\<close>: \<open>JUndefined\<close> when the property is absent.\<close>

definition get_prop :: "json \<Rightarrow> string \<Rightarrow> json" where
  "get_prop obj key =
     (case obj of
        JObj kvs \<Rightarrow> (case map_of kvs key of Some v \<Rightarrow> v | None \<Rightarrow> JUndefined)
      | _ \<Rightarrow> JUndefined)"

section \<open>Token utilities\<close>

text \<open>
  The claims of a decoded token that the server reads. Signing, verifying and decoding are
  done by the jsonwebtoken library, which is a parameter of the functions below.
\<close>

record jwt_payload =
  userId :: string
  exp :: "int option"
  iat :: "int option"

datatype decode_result = DecodeThrows | DecodeNull | Decoded jwt_payload

text \<open>
  \<open>isTokenExpired\<close>, with \<open>jwt.decode\<close> and \<open>Date.now()\<close> (milliseconds) as parameters.
  \<open>!decoded\<close> holds for \<open>null\<close>; \<open>!decoded.exp\<close> holds for a missing claim and for the
  falsy number \<open>0\<close>; an exception of the decoder is caught and answered \<open>true\<close>.
\<close>

definition isTokenExpired :: "(string \<Rightarrow> decode_result) \<Rightarrow> int \<Rightarrow> string \<Rightarrow> bool" where
  "isTokenExpired jwt_decode now token =
     (case jwt_decode token of
        DecodeThrows \<Rightarrow> True
      | DecodeNull \<Rightarrow> True
      | Decoded decoded \<Rightarrow>
          (case exp decoded of
             None \<Rightarrow> True
           | Some e \<Rightarrow>
               if e = 0 then True
               else (let currentTime = now div 1000 in e < currentTime)))"

section \<open>Documents and the store\<close>

text \<open>
  An ObjectId is kept as its 24-digit lower-case hexadecimal string, which is what
  \<open>toString()\<close> prints. Casting a string to an ObjectId (as \<open>findById\<close> and the query
  filters do) succeeds on 24 hexadecimal digits and fails with a \<open>CastError\<close> otherwise.
\<close>

type_synonym object_id = string

definition castObjectId :: "string \<Rightarrow> object_id option" where
  "castObjectId s = (if length s = 24 \<and> list_all is_hex_digit s then Some (map to_lower s) else None)"

text \<open>
  Modelled from the spec: the User schema (\<open>models/User.js\<close> is not among the sources).
  The spec gives a user a unique username and email, a role \<open>user\<close> or \<open>admin\<close> and an
  active flag; the routes read \<open>_id\<close>, \<open>role\<close> and \<open>isActive\<close>.
\<close>

record user =
  user_id :: object_id
  username :: string
  email :: string
  role :: string
  isActive :: bool

record comment =
  comment_user :: object_id
  comment_content :: string

text \<open>The Post schema. \<open>views\<close> is a Number, \<open>likes\<close> an array of user ids.\<close>

record post =
  post_id :: object_id
  title :: string
  content :: string
  author :: object_id
  category :: object_id
  slug :: string
  status :: string
  tags :: "string list"
  featured :: bool
  views :: int
  likes :: "object_id list"
  comments :: "comment list"
  createdAt :: int

record category_doc =
  category_id :: object_id
  category_name :: string

record db =
  users :: "user list"
  posts :: "post list"
  categories :: "category_doc list"

text \<open>
  What a handler throws: an \<open>AppError\<close> with its status code, a plain \<open>Error\<close> (the
  validation utilities, an invalid regular expression), and the \<open>CastError\<close> and
  \<open>ValidationError\<close> of Mongoose.
\<close>

datatype thrown =
    AppError string nat
  | PlainError string
  | CastError
  | ValidationError string

definition User_findById :: "db \<Rightarrow> string \<Rightarrow> thrown + user option" where
  "User_findById d ident =
     (case castObjectId ident of
        None \<Rightarrow> Inl CastError
      | Some oid \<Rightarrow> Inr (find (\<lambda>u. user_id u = oid) (users d)))"

definition Post_findById :: "db \<Rightarrow> string \<Rightarrow> thrown + post option" where
  "Post_findById d ident =
     (case castObjectId ident of
        None \<Rightarrow> Inl CastError
      | Some oid \<Rightarrow> Inr (find (\<lambda>p. post_id p = oid) (posts d)))"

text \<open>\<open>Category.findById(v)\<close> for a value taken from a sanitized body.\<close>

definition Category_findById :: "db \<Rightarrow> json \<Rightarrow> thrown + category_doc option" where
  "Category_findById d v =
     (case v of
        JStr s \<Rightarrow>
          (case castObjectId s of
             None \<Rightarrow> Inl CastError
           | Some oid \<Rightarrow> Inr (find (\<lambda>c. category_id c = oid) (categories d)))
      | _ \<Rightarrow> Inl CastError)"

text \<open>
  \<open>doc.save()\<close> of a loaded post writes the document back under its \<open>_id\<close>;
  \<open>findByIdAndDelete\<close> removes one document; \<open>deleteMany({author})\<close> removes every post of
  that author. The store is taken to accept these writes; references are kept as ids
  (\<open>populate\<close> is not modelled).
\<close>

definition save_post :: "post \<Rightarrow> db \<Rightarrow> db" where
  "save_post p d = d\<lparr>posts := map (\<lambda>q. if post_id q = post_id p then p else q) (posts d)\<rparr>"

fun delete_one :: "('a \<Rightarrow> bool) \<Rightarrow> 'a list \<Rightarrow> 'a list" where
  "delete_one P [] = []"
| "delete_one P (x # xs) = (if P x then xs else x # delete_one P xs)"

definition Post_findByIdAndDelete :: "string \<Rightarrow> db \<Rightarrow> thrown + db" where
  "Post_findByIdAndDelete ident d =
     (case castObjectId ident of
        None \<Rightarrow> Inl CastError
      | Some oid \<Rightarrow> Inr (d\<lparr>posts := delete_one (\<lambda>p. post_id p = oid) (posts d)\<rparr>))"

definition User_findByIdAndDelete :: "string \<Rightarrow> db \<Rightarrow> thrown + db" where
  "User_findByIdAndDelete ident d =
     (case castObjectId ident of
        None \<Rightarrow> Inl CastError
      | Some oid \<Rightarrow> Inr (d\<lparr>users := delete_one (\<lambda>u. user_id u = oid) (users d)\<rparr>))"

text \<open>\<open>Post.deleteMany({author: id})\<close>\<close>

definition Post_deleteMany_author :: "string \<Rightarrow> db \<Rightarrow> thrown + db" where
  "Post_deleteMany_author ident d =
     (case castObjectId ident of
        None \<Rightarrow> Inl CastError
      | Some oid \<Rightarrow> Inr (d\<lparr>posts := filter (\<lambda>p. author p \<noteq> oid) (posts d)\<rparr>))"

subsection \<open>Methods of the Post model\<close>


text \<open>
  \<open>Array.prototype.indexOf\<close> (\<open>-1\<close> when absent) and \<open>splice(i, 1)\<close>.
\<close>

fun indexOf :: "'a list \<Rightarrow> 'a \<Rightarrow> int" where
  "indexOf [] x = - 1"
| "indexOf (y # ys) x =
     (if y = x then 0 else (let i = indexOf ys x in if i < 0 then - 1 else i + 1))"

definition splice1 :: "nat \<Rightarrow> 'a list \<Rightarrow> 'a list" where
  "splice1 i xs = take i xs @ drop (Suc i) xs"

text \<open>
  \<open>toggleLike\<close>: remove the entry at the first index of the user in \<open>likes\<close>, or push the
  user when there is none; then \<open>save()\<close>.
\<close>

definition toggleLike :: "object_id \<Rightarrow> post \<Rightarrow> db \<Rightarrow> post \<times> db" where
  "toggleLike uid p d =
     (let likeIndex = indexOf (likes p) uid;
          p' = (if likeIndex > - 1 then p\<lparr>likes := splice1 (nat likeIndex) (likes p)\<rparr>
                else p\<lparr>likes := likes p @ [uid]\<rparr>)
      in (p', save_post p' d))"

section \<open>Requests, responses and errors\<close>

text \<open>
  A request carries the \<open>Authorization\<close> header, the \<open>:id\<close> (or \<open>:authorId\<close>) segment of
  the path, the query string as string-valued parameters, and the parsed JSON body.
\<close>

record request =
  authorization :: "string option"
  param_id :: string
  query :: "(string \<times> string) list"
  body :: json

record page_envelope = pagination +
  total :: int
  pages :: int

datatype res_body =
    ErrorBody string
  | ValidationFailed "string list"
  | PostsBody "post list" page_envelope
  | PostBody post
  | MessageBody string
  | MessagePostBody string post
  | LikeBody string nat

record response =
  status_code :: nat
  payload :: res_body

definition send :: "nat \<Rightarrow> res_body \<Rightarrow> response" where
  "send code b = \<lparr>status_code = code, payload = b\<rparr>"

text \<open>
  The central \<open>errorHandler\<close>: the status is the error's \<open>statusCode\<close> or 500, a
  \<open>CastError\<close> is answered 404 and a Mongoose \<open>ValidationError\<close> 400; the body is
  \<open>{error: message}\<close> (the stack and details added in development are left out).
\<close>

definition message_or_default :: "string \<Rightarrow> string" where
  "message_or_default m = (if m = [] then ''Server Error'' else m)"

definition errorHandler :: "thrown \<Rightarrow> response" where
  "errorHandler err =
     (case err of
        AppError message statusCode \<Rightarrow>
          send (if statusCode = 0 then 500 else statusCode) (ErrorBody (message_or_default message))
      | PlainError message \<Rightarrow> send 500 (ErrorBody (message_or_default message))
      | CastError \<Rightarrow> send 404 (ErrorBody ''Resource not found'')
      | ValidationError message \<Rightarrow> send 400 (ErrorBody (message_or_default message)))"

text \<open>\<open>asyncHandler\<close>: a rejected handler is passed on to the error handler.\<close>

definition asyncHandler :: "(thrown + response) \<times> db \<Rightarrow> response \<times> db" where
  "asyncHandler r = (case fst r of Inl err \<Rightarrow> (errorHandler err, snd r) | Inr res \<Rightarrow> (res, snd r))"

text \<open>
  The libraries the routes call are parameters: \<open>jwt.verify\<close> with the server's secret,
  the case-insensitive regular expression compiled from a search term (\<open>None\<close> when the
  term is not a valid pattern), and the outcome of \<open>Object.assign(post, updates)\<close> followed
  by \<open>post.save()\<close>, that is Mongoose's casting, hooks and schema validation.
\<close>

datatype verify_result = Verified jwt_payload | JsonWebTokenError | TokenExpiredError | NotBeforeError

record env =
  jwt_verify :: "string \<Rightarrow> verify_result"
  search_regex :: "string \<Rightarrow> (string \<Rightarrow> bool) option"
  assign_and_save :: "post \<Rightarrow> json \<Rightarrow> thrown + post"

section \<open>Authorization middleware\<close>

text \<open>\<open>header.replace('Bearer ', '')\<close> removes the first occurrence.\<close>

fun remove_first_bearer :: "string \<Rightarrow> string" where
  "remove_first_bearer [] = []"
| "remove_first_bearer (c # cs) =
     (if take 7 (c # cs) = ''Bearer '' then drop 6 cs else c # remove_first_bearer cs)"

text \<open>
  \<open>auth\<close>: \<open>Inl\<close> is the response the middleware sends itself, \<open>Inr\<close> the user it puts
  in \<open>req.user\<close> before calling \<open>next()\<close>. An exception that is neither of the two named
  token errors (a \<open>CastError\<close> of the user lookup, a \<open>NotBeforeError\<close>) is answered 500.
\<close>

definition auth :: "env \<Rightarrow> db \<Rightarrow> request \<Rightarrow> response + user" where
  "auth e d req =
     (let token = (case authorization req of None \<Rightarrow> [] | Some h \<Rightarrow> remove_first_bearer h)
      in if token = [] then Inl (send 401 (ErrorBody ''Access denied. No token provided.''))
         else
           (case jwt_verify e token of
              JsonWebTokenError \<Rightarrow> Inl (send 401 (ErrorBody ''Invalid token.''))
            | TokenExpiredError \<Rightarrow> Inl (send 401 (ErrorBody ''Token expired.''))
            | NotBeforeError \<Rightarrow> Inl (send 500 (ErrorBody ''Authentication failed.''))
            | Verified decoded \<Rightarrow>
                (case User_findById d (userId decoded) of
                   Inl err \<Rightarrow> Inl (send 500 (ErrorBody ''Authentication failed.''))
                 | Inr None \<Rightarrow> Inl (send 401 (ErrorBody ''Invalid token. User not found.''))
                 | Inr (Some u) \<Rightarrow>
                     if \<not> isActive u then Inl (send 401 (ErrorBody ''Account is deactivated.''))
                     else Inr u)))"

definition adminAuth :: "env \<Rightarrow> db \<Rightarrow> request \<Rightarrow> response + user" where
  "adminAuth e d req =
     (case auth e d req of
        Inl res \<Rightarrow> Inl res
      | Inr u \<Rightarrow>
          if role u \<noteq> ''admin''
          then Inl (send 403 (ErrorBody ''Access denied. Admin privileges required.''))
          else Inr u)"

section \<open>Request validation\<close>

text \<open>
  The validation chains of the routes are written with express-validator 7 over
  validator.js. A standard validator runs on the string form of a value (\<open>null\<close> and
  \<open>undefined\<close> give the empty string, an object gives \<open>[object Object]\<close>), and on each
  element when the value is an array; \<open>optional()\<close> skips a field whose value is
  \<open>undefined\<close>; a sanitizer such as \<open>trim()\<close> replaces the value in the request.
\<close>

definition ev_toString :: "json \<Rightarrow> string" where
  "ev_toString v =
     (case v of
        JUndefined \<Rightarrow> []
      | JNull \<Rightarrow> []
      | JObj kvs \<Rightarrow> ''[object Object]''
      | _ \<Rightarrow> js_toString v)"

text \<open>\<open>isInt\<close>: the pattern \<open>/^[-+]?[0-9]+$/\<close> and the bounds, compared as numbers.\<close>

definition unsigned_part :: "string \<Rightarrow> string" where
  "unsigned_part s = (if take 1 s = ''-'' \<or> take 1 s = ''+'' then drop 1 s else s)"

definition is_int_string :: "string \<Rightarrow> bool" where
  "is_int_string s = (unsigned_part s \<noteq> [] \<and> list_all is_digit (unsigned_part s))"

definition int_string_value :: "string \<Rightarrow> int" where
  "int_string_value s =
     (let v = int (digits_value 10 (unsigned_part s)) in if take 1 s = ''-'' then - v else v)"

definition isInt :: "int option \<Rightarrow> int option \<Rightarrow> string \<Rightarrow> bool" where
  "isInt lo hi s =
     (is_int_string s
      \<and> (case lo of None \<Rightarrow> True | Some m \<Rightarrow> m \<le> int_string_value s)
      \<and> (case hi of None \<Rightarrow> True | Some m \<Rightarrow> int_string_value s \<le> m))"

text \<open>
  \<open>isMongoId\<close>: 24 characters that \<open>isHexadecimal\<close> accepts, whose pattern
  \<open>/^(0x|0h)?[0-9A-F]+$/i\<close> allows a prefix.
\<close>

definition isHexadecimal :: "string \<Rightarrow> bool" where
  "isHexadecimal s =
     ((s \<noteq> [] \<and> list_all is_hex_digit s)
      \<or> ((ci_prefix ''0x'' s \<or> ci_prefix ''0h'' s) \<and> drop 2 s \<noteq> [] \<and> list_all is_hex_digit (drop 2 s)))"

definition isMongoId :: "string \<Rightarrow> bool" where
  "isMongoId s = (isHexadecimal s \<and> length s = 24)"

definition isLength :: "nat \<Rightarrow> nat option \<Rightarrow> string \<Rightarrow> bool" where
  "isLength lo hi s = (lo \<le> length s \<and> (case hi of None \<Rightarrow> True | Some m \<Rightarrow> length s \<le> m))"

definition isIn :: "string list \<Rightarrow> string \<Rightarrow> bool" where
  "isIn options s = (s \<in> set options)"

definition isBoolean :: "string \<Rightarrow> bool" where
  "isBoolean s = (s \<in> set [''true'', ''false'', ''1'', ''0''])"

definition post_statuses :: "string list" where
  "post_statuses = [''draft'', ''published'', ''archived'']"

text \<open>A chain on a query parameter, optional or required, with its message.\<close>

definition check_query :: "bool \<Rightarrow> (string \<Rightarrow> bool) \<Rightarrow> string \<Rightarrow> string option \<Rightarrow> string list" where
  "check_query optional ok msg v =
     (case v of
        None \<Rightarrow> if optional \<or> ok [] then [] else [msg]
      | Some s \<Rightarrow> if ok s then [] else [msg])"

text \<open>An optional chain on a field of the JSON body.\<close>

definition check_body :: "(string \<Rightarrow> bool) \<Rightarrow> string \<Rightarrow> json \<Rightarrow> string list" where
  "check_body ok msg v =
     (case v of
        JUndefined \<Rightarrow> []
      | JArr xs \<Rightarrow> map (\<lambda>x. msg) (filter (\<lambda>x. \<not> ok (ev_toString x)) xs)
      | _ \<Rightarrow> if ok (ev_toString v) then [] else [msg])"

definition ev_trim :: "json \<Rightarrow> json" where
  "ev_trim v =
     (case v of
        JUndefined \<Rightarrow> JUndefined
      | JArr xs \<Rightarrow> JArr (map (\<lambda>x. JStr (trim (ev_toString x))) xs)
      | _ \<Rightarrow> JStr (trim (ev_toString v)))"

text \<open>The instances of the wildcard field \<open>tags.*\<close>.\<close>

definition wildcard_values :: "json \<Rightarrow> json list" where
  "wildcard_values v = (case v of JArr xs \<Rightarrow> xs | JObj kvs \<Rightarrow> map snd kvs | _ \<Rightarrow> [])"

definition checkValidationResult :: "string list \<Rightarrow> response option" where
  "checkValidationResult errors =
     (if errors = [] then None else Some (send 400 (ValidationFailed errors)))"

text \<open>The chains of \<open>GET /api/posts\<close>, \<open>GET /api/posts/:id\<close> and \<open>GET /api/posts/author/:authorId\<close>.\<close>

definition list_posts_validation :: "(string \<Rightarrow> string option) \<Rightarrow> string list" where
  "list_posts_validation q =
     check_query True (isInt (Some 1) None) ''Page must be a positive integer'' (q ''page'')
     @ check_query True (isInt (Some 1) (Some 100)) ''Limit must be between 1 and 100'' (q ''limit'')
     @ check_query True isMongoId ''Invalid category ID'' (q ''category'')
     @ check_query True (isLength 2 (Some 100)) ''Search query must be between 2 and 100 characters'' (q ''search'')
     @ check_query True (isIn post_statuses) ''Invalid status'' (q ''status'')"


definition author_posts_validation :: "(string \<Rightarrow> string option) \<Rightarrow> string list" where
  "author_posts_validation q =
     check_query True (isInt (Some 1) None) ''Page must be a positive integer'' (q ''page'')
     @ check_query True (isInt (Some 1) (Some 100)) ''Limit must be between 1 and 100'' (q ''limit'')"

text \<open>The chains of \<open>PUT /api/posts/:id\<close> on the body, and the body its sanitizers leave.\<close>

definition update_post_validation :: "json \<Rightarrow> string list" where
  "update_post_validation b =
     check_body (isLength 3 (Some 200)) ''Title must be between 3 and 200 characters''
       (ev_trim (get_prop b ''title''))
     @ check_body (isLength 10 (Some 10000)) ''Content must be between 10 and 10000 characters''
       (ev_trim (get_prop b ''content''))
     @ check_body isMongoId ''Valid category ID is required'' (get_prop b ''category'')
     @ check_body (isIn post_statuses) ''Invalid status'' (get_prop b ''status'')
     @ (case get_prop b ''tags'' of
          JUndefined \<Rightarrow> []
        | JArr xs \<Rightarrow> []
        | _ \<Rightarrow> [''Tags must be an array''])
     @ concat (map (\<lambda>x. check_body (isLength 0 (Some 50)) ''Tag cannot exceed 50 characters'' (ev_trim x))
         (wildcard_values (get_prop b ''tags'')))
     @ check_body isBoolean ''Featured must be a boolean'' (get_prop b ''featured'')"

definition update_post_sanitized :: "json \<Rightarrow> json" where
  "update_post_sanitized b =
     (case b of
        JObj kvs \<Rightarrow>
          JObj (map (\<lambda>kv.
            if fst kv = ''title'' \<or> fst kv = ''content'' then (fst kv, ev_trim (snd kv))
            else if fst kv = ''tags'' then
              (fst kv,
               (case snd kv of
                  JArr xs \<Rightarrow> JArr (map ev_trim xs)
                | JObj tvs \<Rightarrow> JObj (map (\<lambda>tv. (fst tv, ev_trim (snd tv))) tvs)
                | v \<Rightarrow> v))
            else kv) kvs)
      | _ \<Rightarrow> b)"

section \<open>Route handlers\<close>

text \<open>JavaScript truthiness, and \<open>Math.ceil(total / limit)\<close> for a positive limit.\<close>

definition truthy :: "json \<Rightarrow> bool" where
  "truthy v =
     (case v of
        JUndefined \<Rightarrow> False
      | JNull \<Rightarrow> False
      | JBool b \<Rightarrow> b
      | JNum n \<Rightarrow> n \<noteq> 0
      | JStr s \<Rightarrow> s \<noteq> []
      | _ \<Rightarrow> True)"

definition ceil_div :: "int \<Rightarrow> int \<Rightarrow> int" where
  "ceil_div a b = - ((- a) div b)"

definition query_value :: "string option \<Rightarrow> json" where
  "query_value v = (case v of None \<Rightarrow> JUndefined | Some s \<Rightarrow> JStr s)"

definition nonempty_param :: "string option \<Rightarrow> string option" where
  "nonempty_param v = (case v of None \<Rightarrow> None | Some s \<Rightarrow> if s = [] then None else Some s)"

text \<open>\<open>validateSearchQuery\<close> on a string.\<close>

definition validateSearchQuery :: "string \<Rightarrow> string + string" where
  "validateSearchQuery q =
     (if q = [] then Inl ''Search query is required''
      else
        (let trimmedQuery = trim q
         in if length trimmedQuery < 2 then Inl ''Search query must be at least 2 characters long''
            else if length trimmedQuery > 100 then Inl ''Search query cannot exceed 100 characters''
            else Inr trimmedQuery))"

subsection \<open>GET /api/posts\<close>

text \<open>
  The filter of \<open>Post.find\<close>: the status (the requested one, or \<open>published\<close>), the
  category, and the search term matched against title, content and tags. The route has no
  authentication middleware and the handler does not read \<open>req.user\<close>.
\<close>

definition search_filter :: "env \<Rightarrow> string option \<Rightarrow> thrown + (post \<Rightarrow> bool)" where
  "search_filter e search =
     (case search of
        None \<Rightarrow> Inr (\<lambda>p. True)
      | Some s \<Rightarrow>
          (case validateSearchQuery s of
             Inl m \<Rightarrow> Inl (PlainError m)
           | Inr searchQuery \<Rightarrow>
               (case search_regex e searchQuery of
                  None \<Rightarrow> Inl (PlainError ''Invalid regular expression'')
                | Some rx \<Rightarrow> Inr (\<lambda>p. rx (title p) \<or> rx (content p) \<or> list_ex rx (tags p)))))"

definition category_filter :: "string option \<Rightarrow> thrown + (post \<Rightarrow> bool)" where
  "category_filter c =
     (case c of
        None \<Rightarrow> Inr (\<lambda>p. True)
      | Some s \<Rightarrow>
          (case castObjectId s of
             None \<Rightarrow> Inl CastError
           | Some oid \<Rightarrow> Inr (\<lambda>p. category p = oid)))"

text \<open>
  \<open>.sort({createdAt: -1}).skip(skip).limit(limitNum)\<close> and the pagination envelope.
  Posts created at the same instant keep the order of the store.
\<close>

definition page_of :: "pagination \<Rightarrow> post list \<Rightarrow> res_body" where
  "page_of pg matching =
     (let skip = (page pg - 1) * limit pg;
          found = take (nat (limit pg)) (drop (nat skip) (sort_key (\<lambda>p. - createdAt p) matching));
          n = int (length matching)
      in PostsBody found \<lparr>page = page pg, limit = limit pg, total = n, pages = ceil_div n (limit pg)\<rparr>)"

definition list_posts_handler :: "env \<Rightarrow> db \<Rightarrow> request \<Rightarrow> (thrown + response) \<times> db" where
  "list_posts_handler e d req =
     (let q = map_of (query req);
          wanted = (case nonempty_param (q ''status'') of Some s \<Rightarrow> s | None \<Rightarrow> ''published'')
      in case search_filter e (nonempty_param (q ''search'')) of
           Inl err \<Rightarrow> (Inl err, d)
         | Inr matches_search \<Rightarrow>
             (case validatePagination (query_value (q ''page'')) (query_value (q ''limit'')) of
                Inl m \<Rightarrow> (Inl (PlainError m), d)
              | Inr pg \<Rightarrow>
                  (case category_filter (nonempty_param (q ''category'')) of
                     Inl err \<Rightarrow> (Inl err, d)
                   | Inr in_category \<Rightarrow>
                       (Inr (send 200 (page_of pg
                          (filter (\<lambda>p. status p = wanted \<and> in_category p \<and> matches_search p) (posts d)))),
                        d))))"

definition list_posts :: "env \<Rightarrow> db \<Rightarrow> request \<Rightarrow> response \<times> db" where
  "list_posts e d req =
     (case checkValidationResult (list_posts_validation (map_of (query req))) of
        Some res \<Rightarrow> (res, d)
      | None \<Rightarrow> asyncHandler (list_posts_handler e d req))"

subsection \<open>GET /api/posts/:id\<close>



subsection \<open>PUT /api/posts/:id\<close>

text \<open>
  \<open>if (updates.category)\<close>: the category named by the update must exist. \<open>None\<close> means
  that the check passes.
\<close>

definition check_category :: "db \<Rightarrow> json \<Rightarrow> thrown option" where
  "check_category d updates =
     (if truthy (get_prop updates ''category'')
      then
        (case Category_findById d (get_prop updates ''category'') of
           Inl err \<Rightarrow> Some err
         | Inr None \<Rightarrow> Some (AppError ''Category not found'' 404)
         | Inr (Some c) \<Rightarrow> None)
      else None)"

definition update_post_handler :: "env \<Rightarrow> db \<Rightarrow> user \<Rightarrow> request \<Rightarrow> (thrown + response) \<times> db" where
  "update_post_handler e d u req =
     (let updates = sanitizeInput (body req)
      in case Post_findById d (param_id req) of
           Inl err \<Rightarrow> (Inl err, d)
         | Inr None \<Rightarrow> (Inl (AppError ''Post not found'' 404), d)
         | Inr (Some p) \<Rightarrow>
             if author p \<noteq> user_id u then (Inl (AppError ''You can only edit your own posts'' 403), d)
             else
               (case check_category d updates of
                  Some err \<Rightarrow> (Inl err, d)
                | None \<Rightarrow>
                    (case assign_and_save e p updates of
                       Inl err \<Rightarrow> (Inl err, d)
                     | Inr p' \<Rightarrow>
                         (Inr (send 200 (MessagePostBody ''Post updated successfully'' p')),
                          d\<lparr>posts := map (\<lambda>q. if post_id q = post_id p then p' else q) (posts d)\<rparr>))))"

definition update_post :: "env \<Rightarrow> db \<Rightarrow> request \<Rightarrow> response \<times> db" where
  "update_post e d req =
     (case auth e d req of
        Inl res \<Rightarrow> (res, d)
      | Inr u \<Rightarrow>
          (case checkValidationResult (update_post_validation (body req)) of
             Some res \<Rightarrow> (res, d)
           | None \<Rightarrow>
               asyncHandler (update_post_handler e d u (req\<lparr>body := update_post_sanitized (body req)\<rparr>))))"

subsection \<open>DELETE /api/posts/:id\<close>

definition delete_post_handler :: "db \<Rightarrow> user \<Rightarrow> request \<Rightarrow> (thrown + response) \<times> db" where
  "delete_post_handler d u req =
     (case Post_findById d (param_id req) of
        Inl err \<Rightarrow> (Inl err, d)
      | Inr None \<Rightarrow> (Inl (AppError ''Post not found'' 404), d)
      | Inr (Some p) \<Rightarrow>
          if author p \<noteq> user_id u then (Inl (AppError ''You can only delete your own posts'' 403), d)
          else
            (case Post_findByIdAndDelete (param_id req) d of
               Inl err \<Rightarrow> (Inl err, d)
             | Inr d' \<Rightarrow> (Inr (send 200 (MessageBody ''Post deleted successfully'')), d')))"

definition delete_post :: "env \<Rightarrow> db \<Rightarrow> request \<Rightarrow> response \<times> db" where
  "delete_post e d req =
     (case auth e d req of
        Inl res \<Rightarrow> (res, d)
      | Inr u \<Rightarrow> asyncHandler (delete_post_handler d u req))"

subsection \<open>POST /api/posts/:id/like\<close>

definition like_post_handler :: "db \<Rightarrow> user \<Rightarrow> request \<Rightarrow> (thrown + response) \<times> db" where
  "like_post_handler d u req =
     (case Post_findById d (param_id req) of
        Inl err \<Rightarrow> (Inl err, d)
      | Inr None \<Rightarrow> (Inl (AppError ''Post not found'' 404), d)
      | Inr (Some p) \<Rightarrow>
          (let r = toggleLike (user_id u) p d
           in (Inr (send 200 (LikeBody ''Post like updated'' (length (likes (fst r))))), snd r)))"

definition like_post :: "env \<Rightarrow> db \<Rightarrow> request \<Rightarrow> response \<times> db" where
  "like_post e d req =
     (case auth e d req of
        Inl res \<Rightarrow> (res, d)
      | Inr u \<Rightarrow> asyncHandler (like_post_handler d u req))"

subsection \<open>GET /api/posts/author/:authorId\<close>

definition author_posts_handler :: "db \<Rightarrow> request \<Rightarrow> (thrown + response) \<times> db" where
  "author_posts_handler d req =
     (let q = map_of (query req)
      in case validatePagination (query_value (q ''page'')) (query_value (q ''limit'')) of
           Inl m \<Rightarrow> (Inl (PlainError m), d)
         | Inr pg \<Rightarrow>
             (case castObjectId (param_id req) of
                None \<Rightarrow> (Inl CastError, d)
              | Some oid \<Rightarrow>
                  (Inr (send 200 (page_of pg
                     (filter (\<lambda>p. author p = oid \<and> status p = ''published'') (posts d)))),
                   d)))"

definition author_posts :: "db \<Rightarrow> request \<Rightarrow> response \<times> db" where
  "author_posts d req =
     (case checkValidationResult (author_posts_validation (map_of (query req))) of
        Some res \<Rightarrow> (res, d)
      | None \<Rightarrow> asyncHandler (author_posts_handler d req))"

subsection \<open>DELETE /api/users/:id\<close>

text \<open>
  The guard against deleting oneself compares the printed id of the caller with the path
  segment as strings; the posts of the user are deleted before the user.
\<close>

definition delete_user_handler :: "db \<Rightarrow> user \<Rightarrow> request \<Rightarrow> (thrown + response) \<times> db" where
  "delete_user_handler d u req =
     (if user_id u = param_id req then (Inl (AppError ''You cannot delete your own account'' 400), d)
      else
        (case User_findById d (param_id req) of
           Inl err \<Rightarrow> (Inl err, d)
         | Inr None \<Rightarrow> (Inl (AppError ''User not found'' 404), d)
         | Inr (Some target) \<Rightarrow>
             (case Post_deleteMany_author (param_id req) d of
                Inl err \<Rightarrow> (Inl err, d)
              | Inr d1 \<Rightarrow>
                  (case User_findByIdAndDelete (param_id req) d1 of
                     Inl err \<Rightarrow> (Inl err, d1)
                   | Inr d2 \<Rightarrow> (Inr (send 200 (MessageBody ''User deleted successfully'')), d2)))))"

definition delete_user :: "env \<Rightarrow> db \<Rightarrow> request \<Rightarrow> response \<times> db" where
  "delete_user e d req =
     (case adminAuth e d req of
        Inl res \<Rightarrow> (res, d)
      | Inr u \<Rightarrow> asyncHandler (delete_user_handler d u req))"

text \<open>The posts a response carries.\<close>

definition response_posts :: "response \<Rightarrow> post list" where
  "response_posts res =
     (case payload res of
        PostsBody ps pe \<Rightarrow> ps
      | PostBody p \<Rightarrow> [p]
      | MessagePostBody m p \<Rightarrow> [p]
      | _ \<Rightarrow> [])"

subsection \<open>POST /api/posts\<close>

text \<open>
  The handler destructures the sanitized body,
  \<open>const {..., tags = [], ...} = sanitizeInput(req.body)\<close>; this is the value of \<open>tags\<close>.
\<close>

definition create_post_tags :: "json \<Rightarrow> json" where
  "create_post_tags b =
     (let v = get_prop (sanitizeInput b) ''tags'' in if v = JUndefined then JArr [] else v)"

section \<open>A sample store\<close>

text \<open>
  Two users and an administrator, three posts, and stand-ins for the libraries: tokens
  that verify to each of the three accounts, a search that looks for the term as a
  substring ignoring case, and a save that accepts a new title.
\<close>

definition alice :: user where
  "alice = \<lparr>user_id = ''a11ce0000000000000000001'', username = ''alice'',
            email = ''alice@example.com'', role = ''user'', isActive = True\<rparr>"

definition bob :: user where
  "bob = \<lparr>user_id = ''b0b000000000000000000002'', username = ''bob'',
          email = ''bob@example.com'', role = ''user'', isActive = True\<rparr>"

definition root_admin :: user where
  "root_admin = \<lparr>user_id = ''ad0000000000000000000003'', username = ''admin'',
                 email = ''admin@example.com'', role = ''admin'', isActive = True\<rparr>"

definition draft_post :: post where
  "draft_post = \<lparr>post_id = ''d0c000000000000000000001'', title = ''Draft Post'',
     content = ''Draft content'', author = ''a11ce0000000000000000001'',
     category = ''ca7000000000000000000001'', slug = ''draft-post'', status = ''draft'',
     tags = [], featured = False, views = 5, likes = [], comments = [], createdAt = 30\<rparr>"

definition test_post :: post where
  "test_post = \<lparr>post_id = ''d0c000000000000000000002'', title = ''Test Post'',
     content = ''Test content'', author = ''a11ce0000000000000000001'',
     category = ''ca7000000000000000000001'', slug = ''test-post'', status = ''published'',
     tags = [''testing''], featured = False, views = 10, likes = [], comments = [], createdAt = 20\<rparr>"

definition twice_liked_post :: post where
  "twice_liked_post = \<lparr>post_id = ''d0c000000000000000000003'', title = ''Other Post'',
     content = ''Other content'', author = ''b0b000000000000000000002'',
     category = ''ca7000000000000000000001'', slug = ''other-post'', status = ''published'',
     tags = [], featured = False, views = 0,
     likes = [''a11ce0000000000000000001'', ''a11ce0000000000000000001''],
     comments = [], createdAt = 10\<rparr>"

definition sample_db :: db where
  "sample_db = \<lparr>users = [alice, bob, root_admin],
                posts = [draft_post, test_post, twice_liked_post],
                categories = [\<lparr>category_id = ''ca7000000000000000000001'', category_name = ''Technology''\<rparr>]\<rparr>"

definition sample_claims :: "object_id \<Rightarrow> jwt_payload" where
  "sample_claims uid = \<lparr>userId = uid, exp = Some 1700604800, iat = Some 1700000000\<rparr>"

definition sample_env :: env where
  "sample_env =
     \<lparr>jwt_verify = (\<lambda>t. if t = ''alice-token'' then Verified (sample_claims (user_id alice))
                         else if t = ''bob-token'' then Verified (sample_claims (user_id bob))
                         else if t = ''admin-token'' then Verified (sample_claims (user_id root_admin))
                         else JsonWebTokenError),
      search_regex = (\<lambda>term. Some (\<lambda>subject. find_ci (map to_lower term) subject \<noteq> None)),
      assign_and_save = (\<lambda>p updates.
         case get_prop updates ''title'' of JStr s \<Rightarrow> Inr (p\<lparr>title := s\<rparr>) | _ \<Rightarrow> Inr p)\<rparr>"

definition sample_request :: "string option \<Rightarrow> string \<Rightarrow> (string \<times> string) list \<Rightarrow> json \<Rightarrow> request" where
  "sample_request h ident q b = \<lparr>authorization = h, param_id = ident, query = q, body = b\<rparr>"

section \<open>Properties of the validation utilities\<close>

subsection \<open>Reading a printed number back\<close>

lemma of_char_digit_char: "d < 10 \<Longrightarrow> (of_char (digit_char d) :: nat) = 48 + d"
  by (simp add: digit_char_def)

lemma digit_char_props:
  assumes "d < 10"
  shows "is_digit (digit_char d)" "digit_val (digit_char d) = d"
  using assms by (simp_all add: is_digit_def digit_val_def of_char_digit_char)

lemma digits_of_all_digits: "\<forall>c \<in> set (digits_of n). is_digit c"
proof (induction n rule: digits_of.induct)
  case (1 n)
  show ?case
  proof (cases "n < 10")
    case True
    then show ?thesis by (simp add: digits_of.simps [of n] digit_char_props)
  next
    case False
    with 1 show ?thesis by (simp add: digits_of.simps [of n] digit_char_props)
  qed
qed

lemma digits_value_snoc: "digits_value r (ds @ [c]) = digits_value r ds * r + digit_val c"
  by (simp add: digits_value_def)

lemma digits_value_digits_of: "digits_value 10 (digits_of n) = n"
proof (induction n rule: digits_of.induct)
  case (1 n)
  show ?case
  proof (cases "n < 10")
    case True
    then show ?thesis by (simp add: digits_of.simps [of n] digits_value_def digit_char_props)
  next
    case False
    with 1 have "digits_value 10 (digits_of (n div 10)) = n div 10" by simp
    with False show ?thesis
      by (simp add: digits_of.simps [of n] digits_value_snoc digit_char_props)
  qed
qed

lemma digits_of_nonempty: "digits_of n \<noteq> []"
  by (simp add: digits_of.simps [of n])

lemma takeWhile_digits_of: "takeWhile is_digit (digits_of n) = digits_of n"
  using digits_of_all_digits by simp

lemma digits_of_not_hex_prefix: "\<not> has_hex_prefix (digits_of n)"
proof
  assume h: "has_hex_prefix (digits_of n)"
  then have len: "2 \<le> length (digits_of n)"
    by (auto simp: has_hex_prefix_def dest: arg_cong [where f = length])
  from h have "digits_of n ! 1 = CHR ''x'' \<or> digits_of n ! 1 = CHR ''X''"
    unfolding has_hex_prefix_def using len
    by (metis One_nat_def lessI nth_Cons_0 nth_Cons_Suc nth_take numeral_2_eq_2)
  moreover have "digits_of n ! 1 \<in> set (digits_of n)"
    using len by (intro nth_mem) simp
  then have "is_digit (digits_of n ! 1)"
    using digits_of_all_digits by blast
  ultimately show False by (auto simp: is_digit_def)
qed

lemma digits_of_hd:
  obtains c cs where "digits_of n = c # cs" "is_digit c"
  using digits_of_nonempty [of n] digits_of_all_digits [of n]
  by (cases "digits_of n") auto

lemma is_digit_not_special:
  assumes "is_digit c"
  shows "\<not> is_space c" "c \<noteq> CHR ''-''" "c \<noteq> CHR ''+''"
  using assms by (auto simp: is_digit_def is_space_def)

lemma parseInt_string_digits_of: "parseInt_string (digits_of n) = Some (int n)"
proof -
  obtain c cs where eq: "digits_of n = c # cs" and c: "is_digit c" by (rule digits_of_hd)
  have s1: "dropWhile is_space (digits_of n) = digits_of n"
    using eq c by (simp add: is_digit_not_special)
  have sign: "take 1 (digits_of n) \<noteq> ''-''" "take 1 (digits_of n) \<noteq> ''+''"
    using eq c by (auto simp: is_digit_not_special)
  show ?thesis
    unfolding parseInt_string_def s1 Let_def
    using sign
    by (simp add: digits_of_not_hex_prefix takeWhile_digits_of digits_of_nonempty
        digits_value_digits_of)
qed

lemma parseInt_string_neg_digits_of:
  "parseInt_string (CHR ''-'' # digits_of n) = Some (- int n)"
proof -
  have s1: "dropWhile is_space (CHR ''-'' # digits_of n) = CHR ''-'' # digits_of n"
    by (simp add: is_space_def)
  show ?thesis
    unfolding parseInt_string_def s1 Let_def
    by (simp add: digits_of_not_hex_prefix takeWhile_digits_of digits_of_nonempty
        digits_value_digits_of)
qed

lemma parseInt_JNum: "parseInt (JNum n) = Some n"
  by (simp add: parseInt_def number_to_string_def parseInt_string_digits_of
      parseInt_string_neg_digits_of)


subsection \<open>validatePagination\<close>

text \<open>
  Claim C3. The claim is that \<open>validatePagination(page, limit)\<close> throws whenever
  \<open>page < 1\<close> or \<open>limit\<close> is outside \<open>[1, 100]\<close>, in particular at \<open>(0, 10)\<close>,
  \<open>(1, 0)\<close> and \<open>(1, 101)\<close>. The code reads \<open>parseInt(page) || 1\<close> and
  \<open>parseInt(limit) || 10\<close>, so a page or a limit of \<open>0\<close> is replaced by the default before
  the range checks: \<open>validatePagination(0, 10)\<close> and \<open>validatePagination(1, 0)\<close> both return
  \<open>{page: 1, limit: 10}\<close>, where the repository's unit test expects an error. Only
  \<open>(1, 101)\<close> throws.
\<close>

theorem validatePagination_zero_is_defaulted:
  "validatePagination (JNum 0) (JNum 10) = Inr \<lparr>page = 1, limit = 10\<rparr>
   \<and> validatePagination (JNum 1) (JNum 0) = Inr \<lparr>page = 1, limit = 10\<rparr>
   \<and> validatePagination (JNum 1) (JNum 101) = Inl ''Limit must be between 1 and 100''"
  by (simp add: validatePagination_def parseInt_JNum or_default_def)



subsection \<open>sanitizeInput\<close>

lemma map_of_sanitized_entries:
  "key \<noteq> ''__proto__'' \<Longrightarrow>
   map_of (map (\<lambda>kv. (fst kv, f (snd kv))) (filter (\<lambda>kv. fst kv \<noteq> ''__proto__'') kvs)) key
     = map_option f (map_of kvs key)"
  by (induction kvs) auto

lemma length_index_keys: "length (index_keys n) = n"
  by (simp add: index_keys_def)

text \<open>
  Claim C10. For every array, \<open>sanitizeInput\<close> returns a plain object, not an array: its
  keys are the indices of the array and its values are the sanitized elements. So an
  array-valued field of a request body, such as the \<open>tags\<close> list of a post, is an object
  keyed by index after the body has been sanitized.
\<close>

theorem sanitizeInput_array_to_object:
  "(\<exists>kvs. sanitizeInput (JArr xs) = JObj kvs
          \<and> map fst kvs = index_keys (length xs)
          \<and> map snd kvs = map sanitizeInput xs)
   \<and> (map_of entries ''tags'' = Some (JArr ts) \<longrightarrow>
        create_post_tags (JObj entries)
          = JObj (zip (index_keys (length ts)) (map sanitizeInput ts)))"
proof
  show "\<exists>kvs. sanitizeInput (JArr xs) = JObj kvs
          \<and> map fst kvs = index_keys (length xs)
          \<and> map snd kvs = map sanitizeInput xs"
    by (simp add: length_index_keys)
  show "map_of entries ''tags'' = Some (JArr ts) \<longrightarrow>
        create_post_tags (JObj entries)
          = JObj (zip (index_keys (length ts)) (map sanitizeInput ts))"
    by (simp add: create_post_tags_def get_prop_def map_of_sanitized_entries)
qed

theorem sanitizeInput_array_to_object_witness:
  "map_of [(''title'', JStr ''Hello''), (''tags'', JArr [JStr ''a'', JStr '' <b> ''])] ''tags''
     = Some (JArr [JStr ''a'', JStr '' <b> ''])
   \<and> create_post_tags (JObj [(''title'', JStr ''Hello''),
          (''tags'', JArr [JStr ''a'', JStr '' <b> ''])])
     = JObj [(''0'', JStr ''a''), (''1'', JStr ''b'')]"
proof -
  let ?body = "[(''title'', JStr ''Hello''), (''tags'', JArr [JStr ''a'', JStr '' <b> ''])]"
  let ?ts = "[JStr ''a'', JStr '' <b> '']"
  have h: "map_of ?body ''tags'' = Some (JArr ?ts)"
    by simp
  have "create_post_tags (JObj ?body)
          = JObj (zip (index_keys (length ?ts)) (map sanitizeInput ?ts))"
    using sanitizeInput_array_to_object [of "[]" ?body ?ts] h by blast
  also have "\<dots> = JObj [(''0'', JStr ''a''), (''1'', JStr ''b'')]"
    by code_simp
  finally show ?thesis
    using h by blast
qed

section \<open>Properties of the token utilities\<close>

text \<open>
  Claim C7. \<open>isTokenExpired\<close> fails closed: it answers \<open>true\<close> for a token that cannot be
  decoded (the decoder returns \<open>null\<close> or throws) and for a token whose claims carry no
  expiry; it answers \<open>false\<close> for a token whose expiry instant (a positive number of
  seconds, as every issued token has) has not been passed by the clock.
\<close>

theorem isTokenExpired_fail_closed:
  "(jwt_decode bad = DecodeThrows \<or> jwt_decode bad = DecodeNull \<longrightarrow>
      isTokenExpired jwt_decode now bad)
   \<and> (jwt_decode bare = Decoded d \<and> exp d = None \<longrightarrow> isTokenExpired jwt_decode now bare)
   \<and> (jwt_decode fresh = Decoded d' \<and> exp d' = Some e \<and> 0 < e \<and> now div 1000 \<le> e \<longrightarrow>
        \<not> isTokenExpired jwt_decode now fresh)"
  by (auto simp: isTokenExpired_def)

theorem isTokenExpired_fail_closed_witness:
  "(let jwt_decode = (\<lambda>t. if t = ''fresh'' then Decoded \<lparr>userId = ''u1'', exp = Some 1700003600, iat = Some 1700000000\<rparr>
                          else if t = ''bare'' then Decoded \<lparr>userId = ''u1'', exp = None, iat = Some 1700000000\<rparr>
                          else DecodeNull);
        now = 1700000000123
    in jwt_decode ''not-a-token'' = DecodeNull
       \<and> jwt_decode ''bare'' = Decoded \<lparr>userId = ''u1'', exp = None, iat = Some 1700000000\<rparr>
       \<and> jwt_decode ''fresh'' = Decoded \<lparr>userId = ''u1'', exp = Some 1700003600, iat = Some 1700000000\<rparr>
       \<and> (0::int) < 1700003600 \<and> now div 1000 \<le> 1700003600
       \<and> isTokenExpired jwt_decode now ''not-a-token''
       \<and> isTokenExpired jwt_decode now ''bare''
       \<and> \<not> isTokenExpired jwt_decode now ''fresh'')"
  using isTokenExpired_fail_closed
    [of "\<lambda>t. if t = ''fresh'' then Decoded \<lparr>userId = ''u1'', exp = Some 1700003600, iat = Some 1700000000\<rparr>
              else if t = ''bare'' then Decoded \<lparr>userId = ''u1'', exp = None, iat = Some 1700000000\<rparr>
              else DecodeNull"
        "''not-a-token''" 1700000000123 "''bare''"
        "\<lparr>userId = ''u1'', exp = None, iat = Some 1700000000\<rparr>" "''fresh''"
        "\<lparr>userId = ''u1'', exp = Some 1700003600, iat = Some 1700000000\<rparr>" 1700003600]
  by (simp add: Let_def)

section \<open>Properties of the store and of the Post methods\<close>





lemma User_findById_SomeD:
  assumes "User_findById d ident = Inr (Some u)"
  shows "castObjectId ident = Some (user_id u)"
proof -
  from assms obtain oid where c: "castObjectId ident = Some oid"
    and f: "find (\<lambda>v. user_id v = oid) (users d) = Some u"
    by (auto simp: User_findById_def split: option.splits)
  from f have "user_id u = oid" by (auto simp: find_Some_iff)
  with c show ?thesis by simp
qed

subsection \<open>ObjectIds\<close>

lemma of_char_to_lower:
  "(of_char (to_lower c) :: nat)
     = (if 65 \<le> (of_char c :: nat) \<and> (of_char c :: nat) \<le> 90 then of_char c + 32 else of_char c)"
  by (simp add: to_lower_def Let_def)

lemma to_lower_idem: "to_lower (to_lower c) = to_lower c"
proof -
  have "(of_char (to_lower (to_lower c)) :: nat) = of_char (to_lower c)"
    by (simp add: of_char_to_lower)
  then show ?thesis by simp
qed

lemma is_hex_digit_to_lower: "is_hex_digit c \<Longrightarrow> is_hex_digit (to_lower c)"
  by (auto simp: is_hex_digit_def of_char_to_lower Let_def)

lemma castObjectId_canonical:
  assumes "castObjectId s = Some oid"
  shows "castObjectId oid = Some oid"
proof -
  from assms have len: "length s = 24" and hex: "list_all is_hex_digit s"
    and oid: "oid = map to_lower s"
    by (auto simp: castObjectId_def split: if_splits)
  from hex have "list_all is_hex_digit oid"
    unfolding oid by (induction s) (simp_all add: is_hex_digit_to_lower)
  moreover have "map to_lower oid = oid"
    unfolding oid by (simp add: to_lower_idem)
  ultimately show ?thesis
    using len by (simp add: castObjectId_def oid)
qed

subsection \<open>The like toggle\<close>

lemma indexOf_absent: "x \<notin> set xs \<Longrightarrow> indexOf xs x = - 1"
  by (induction xs) (auto simp: Let_def)

lemma indexOf_present: "x \<in> set xs \<Longrightarrow> 0 \<le> indexOf xs x"
  by (induction xs) (auto simp: Let_def)

lemma splice1_indexOf: "x \<in> set xs \<Longrightarrow> splice1 (nat (indexOf xs x)) xs = remove1 x xs"
proof (induction xs)
  case Nil
  then show ?case by simp
next
  case (Cons y ys)
  show ?case
  proof (cases "y = x")
    case True
    then show ?thesis by (simp add: splice1_def)
  next
    case False
    with Cons.prems have in_ys: "x \<in> set ys" by simp
    have nonneg: "0 \<le> indexOf ys x" by (rule indexOf_present [OF in_ys])
    then have "nat (indexOf ys x + 1) = Suc (nat (indexOf ys x))" by simp
    with False nonneg Cons.IH [OF in_ys] show ?thesis
      by (simp add: splice1_def Let_def)
  qed
qed


lemma toggleLike_fst:
  "fst (toggleLike uid p d)
     = p\<lparr>likes := (if uid \<in> set (likes p) then remove1 uid (likes p) else likes p @ [uid])\<rparr>"
proof (cases "uid \<in> set (likes p)")
  case True
  then show ?thesis
    using indexOf_present [OF True] splice1_indexOf [OF True]
    by (simp add: toggleLike_def Let_def)
next
  case False
  then show ?thesis
    by (simp add: toggleLike_def Let_def indexOf_absent)
qed


text \<open>
  A like list without duplicates stays so under the toggle, so the like lists that the
  toggle builds from the empty list never hold a user twice.
\<close>

lemma toggleLike_keeps_distinct:
  "distinct (likes p) \<Longrightarrow> distinct (likes (fst (toggleLike uid p d)))"
  by (simp add: toggleLike_fst)




section \<open>Properties of the routes\<close>

subsection \<open>Authentication\<close>

lemma auth_InrD:
  assumes "auth e d req = Inr u"
  shows "\<exists>ident. User_findById d ident = Inr (Some u)"
  using assms
  by (auto simp: auth_def Let_def split: if_splits verify_result.splits sum.splits option.splits)

lemma adminAuth_InrD:
  assumes "adminAuth e d req = Inr u"
  shows "auth e d req = Inr u" and "role u = ''admin''"
  using assms by (auto simp: adminAuth_def split: sum.splits if_splits)

lemma caller_id_canonical:
  assumes "auth e d req = Inr u"
  shows "castObjectId (user_id u) = Some (user_id u)"
proof -
  from auth_InrD [OF assms] obtain ident where "User_findById d ident = Inr (Some u)" ..
  then have "castObjectId ident = Some (user_id u)" by (rule User_findById_SomeD)
  then show ?thesis by (rule castObjectId_canonical)
qed

subsection \<open>GET /api/posts\<close>

text \<open>
  Claim C1. The claim is that a \<open>GET /api/posts\<close> request from an unauthenticated caller
  with \<open>status=draft\<close> is rejected with 403 and returns no draft. The route has no
  authentication middleware and the handler copies the requested status into the filter:
  the request below, with no \<open>Authorization\<close> header, is answered 200 with the draft post
  of the store, where the repository's integration test expects 403.
\<close>

theorem list_posts_serves_drafts_to_anyone:
  "list_posts sample_env sample_db (sample_request None [] [(''status'', ''draft'')] JUndefined)
     = (send 200 (PostsBody [draft_post] \<lparr>page = 1, limit = 10, total = 1, pages = 1\<rparr>), sample_db)"
  by code_simp

text \<open>No request to this route is answered 403, whatever the store and the headers.\<close>

lemma list_posts_never_403: "status_code (fst (list_posts e d req)) \<noteq> 403"
  by (auto simp: list_posts_def checkValidationResult_def asyncHandler_def list_posts_handler_def
      errorHandler_def send_def Let_def search_filter_def category_filter_def
      split: sum.splits option.splits)

subsection \<open>GET /api/posts/:id\<close>




subsection \<open>PUT and DELETE /api/posts/:id\<close>

text \<open>
  Claim C2. The claim is that a \<open>PUT\<close> or \<open>DELETE\<close> on \<open>/posts/:id\<close> by an authenticated
  administrator, on an existing post of another user, is not rejected with 403. Both
  handlers compare the author of the post with the caller and never read the caller's
  role: the administrator of the sample store is answered 403 on both routes, and the
  store is unchanged. The repository's integration tests expect 200 for both requests.
\<close>

theorem admin_is_refused_on_foreign_post:
  "role root_admin = ''admin'' \<and> author test_post \<noteq> user_id root_admin
   \<and> auth sample_env sample_db
        (sample_request (Some ''Bearer admin-token'') (post_id test_post) []
           (JObj [(''title'', JStr ''Admin Updated Post''), (''status'', JStr ''published'')]))
       = Inr root_admin
   \<and> update_post sample_env sample_db
        (sample_request (Some ''Bearer admin-token'') (post_id test_post) []
           (JObj [(''title'', JStr ''Admin Updated Post''), (''status'', JStr ''published'')]))
       = (send 403 (ErrorBody ''You can only edit your own posts''), sample_db)
   \<and> delete_post sample_env sample_db
        (sample_request (Some ''Bearer admin-token'') (post_id test_post) [] JUndefined)
       = (send 403 (ErrorBody ''You can only delete your own posts''), sample_db)"
  by code_simp

text \<open>
  Claim C4. The claim is that every \<open>PUT /posts/:id\<close> by an authenticated caller who is
  neither the author of the post nor an administrator is answered 403 and leaves the
  stored post unchanged. The validation chain of the route runs before the handler: a body
  that fails it, here a title of two characters, is answered 400, not 403.
\<close>

theorem update_post_invalid_body_counterexample:
  "auth sample_env sample_db
      (sample_request (Some ''Bearer bob-token'') (post_id test_post) [] (JObj [(''title'', JStr ''ab'')]))
     = Inr bob
   \<and> role bob \<noteq> ''admin'' \<and> author test_post \<noteq> user_id bob
   \<and> Post_findById sample_db (post_id test_post) = Inr (Some test_post)
   \<and> status_code (fst (update_post sample_env sample_db
        (sample_request (Some ''Bearer bob-token'') (post_id test_post) [] (JObj [(''title'', JStr ''ab'')]))))
     \<noteq> 403"
  by code_simp

text \<open>
  The ownership check of both routes, for any authenticated caller: the role of the caller
  plays no part.
\<close>

lemma post_routes_refuse_non_author:
  assumes "auth e d req = Inr u"
    and "Post_findById d (param_id req) = Inr (Some p)"
    and "author p \<noteq> user_id u"
  shows "update_post e d req
           = (if update_post_validation (body req) = []
              then send 403 (ErrorBody ''You can only edit your own posts'')
              else send 400 (ValidationFailed (update_post_validation (body req))), d)"
    and "delete_post e d req = (send 403 (ErrorBody ''You can only delete your own posts''), d)"
  using assms
  by (simp_all add: update_post_def delete_post_def checkValidationResult_def asyncHandler_def
      update_post_handler_def delete_post_handler_def errorHandler_def message_or_default_def Let_def)

text \<open>
  Claim C4, amended. For every \<open>PUT /posts/:id\<close> by an authenticated caller who is neither
  the author of the existing post nor an administrator, the store is unchanged, so the
  post is stored as it was; the response is 403 when the body passes the validation chain
  of the route, and 400 when it does not.
\<close>

theorem update_post_refuses_non_owner:
  assumes "auth e d req = Inr u"
    and "Post_findById d (param_id req) = Inr (Some p)"
    and "author p \<noteq> user_id u"
    and "role u \<noteq> ''admin''"
  shows "snd (update_post e d req) = d
       \<and> Post_findById (snd (update_post e d req)) (param_id req) = Inr (Some p)
       \<and> status_code (fst (update_post e d req))
           = (if update_post_validation (body req) = [] then 403 else 400)"
  using post_routes_refuse_non_author(1) [OF assms(1-3)] assms(2)
  by (simp add: send_def)

theorem update_post_refuses_non_owner_witness:
  "auth sample_env sample_db
      (sample_request (Some ''Bearer bob-token'') (post_id test_post) []
         (JObj [(''title'', JStr ''Unauthorized Update'')]))
     = Inr bob
   \<and> Post_findById sample_db (post_id test_post) = Inr (Some test_post)
   \<and> author test_post \<noteq> user_id bob
   \<and> role bob \<noteq> ''admin''
   \<and> update_post_validation (JObj [(''title'', JStr ''Unauthorized Update'')]) = []
   \<and> snd (update_post sample_env sample_db
        (sample_request (Some ''Bearer bob-token'') (post_id test_post) []
           (JObj [(''title'', JStr ''Unauthorized Update'')])))
     = sample_db
   \<and> status_code (fst (update_post sample_env sample_db
        (sample_request (Some ''Bearer bob-token'') (post_id test_post) []
           (JObj [(''title'', JStr ''Unauthorized Update'')]))))
     = 403"
proof -
  let ?b = "JObj [(''title'', JStr ''Unauthorized Update'')]"
  let ?req = "sample_request (Some ''Bearer bob-token'') (post_id test_post) [] ?b"
  have pid: "param_id ?req = post_id test_post" and bd: "body ?req = ?b"
    by (simp_all add: sample_request_def)
  have h1: "auth sample_env sample_db ?req = Inr bob"
    by code_simp
  have h2: "Post_findById sample_db (param_id ?req) = Inr (Some test_post)"
    unfolding pid by code_simp
  have h3: "author test_post \<noteq> user_id bob"
    by code_simp
  have h4: "role bob \<noteq> ''admin''"
    by code_simp
  have v: "update_post_validation ?b = []"
    by code_simp
  have "snd (update_post sample_env sample_db ?req) = sample_db
      \<and> status_code (fst (update_post sample_env sample_db ?req)) = 403"
    using update_post_refuses_non_owner [OF h1 h2 h3 h4] v unfolding bd by simp
  with h1 h2 h3 h4 v show ?thesis
    unfolding pid by blast
qed

subsection \<open>DELETE /api/users/:id\<close>

lemma page_of_empty:
  "page_of pg [] = PostsBody [] \<lparr>page = page pg, limit = limit pg, total = 0, pages = 0\<rparr>"
  by (simp add: page_of_def ceil_div_def Let_def)

lemma validatePagination_absent:
  "validatePagination JUndefined JUndefined = Inr \<lparr>page = 1, limit = 10\<rparr>"
  by code_simp

lemma find_delete_one_distinct:
  "distinct (map f xs) \<Longrightarrow> find (\<lambda>x. f x = k) (delete_one (\<lambda>x. f x = k) xs) = None"
proof (induction xs)
  case Nil
  then show ?case by simp
next
  case (Cons x xs)
  show ?case
  proof (cases "f x = k")
    case True
    with Cons.prems have "k \<notin> f ` set xs" by auto
    then have "find (\<lambda>x. f x = k) xs = None" by (auto simp: find_None_iff)
    with True show ?thesis by simp
  next
    case False
    with Cons show ?thesis by simp
  qed
qed

lemma delete_user_success:
  assumes admin: "adminAuth e d req = Inr a"
    and target: "User_findById d (param_id req) = Inr (Some t)"
    and other: "user_id t \<noteq> user_id a"
  shows "delete_user e d req
           = (send 200 (MessageBody ''User deleted successfully''),
              d\<lparr>posts := filter (\<lambda>p. author p \<noteq> user_id t) (posts d),
                users := delete_one (\<lambda>u. user_id u = user_id t) (users d)\<rparr>)"
proof -
  have a: "auth e d req = Inr a" using admin by (rule adminAuth_InrD)
  have cast: "castObjectId (param_id req) = Some (user_id t)"
    using target by (rule User_findById_SomeD)
  have "param_id req \<noteq> user_id a"
  proof
    assume eq: "param_id req = user_id a"
    have "castObjectId (user_id a) = Some (user_id a)" using a by (rule caller_id_canonical)
    with cast eq other show False by simp
  qed
  then show ?thesis
    using admin target cast
    by (simp add: delete_user_def asyncHandler_def delete_user_handler_def
        Post_deleteMany_author_def User_findByIdAndDelete_def)
qed

lemma author_posts_of_absent_author:
  assumes cast: "castObjectId (param_id req) = Some oid"
    and none: "filter (\<lambda>p. author p = oid) (posts d) = []"
  shows "response_posts (fst (author_posts d req)) = []"
    and "query req = [] \<longrightarrow>
           fst (author_posts d req)
             = send 200 (PostsBody [] \<lparr>page = 1, limit = 10, total = 0, pages = 0\<rparr>)"
proof -
  have empty: "filter (\<lambda>p. author p = oid \<and> status p = ''published'') (posts d) = []"
    using none by (auto simp: filter_empty_conv)
  show "response_posts (fst (author_posts d req)) = []"
    using cast empty
    by (auto simp: author_posts_def checkValidationResult_def asyncHandler_def
        author_posts_handler_def errorHandler_def send_def response_posts_def page_of_empty Let_def
        split: sum.splits)
  show "query req = [] \<longrightarrow>
           fst (author_posts d req)
             = send 200 (PostsBody [] \<lparr>page = 1, limit = 10, total = 0, pages = 0\<rparr>)"
    using cast empty
    by (auto simp: author_posts_def checkValidationResult_def asyncHandler_def
        author_posts_handler_def author_posts_validation_def check_query_def query_value_def
        validatePagination_absent page_of_empty Let_def)
qed

text \<open>
  Claim C6. When an administrator deletes another existing user through
  \<open>DELETE /users/:id\<close>, the response is 200, the user is removed (no user of that id is
  left when ids are unique) and every post authored by that user is deleted, the posts of
  the other authors being kept; so a later \<open>GET /posts/author/:id\<close> for that author
  carries no post, and with no query parameters it is answered 200 with an empty page and
  a total of zero.
\<close>

theorem delete_user_cascades_to_posts:
  assumes admin: "adminAuth e d req = Inr a"
    and target: "User_findById d (param_id req) = Inr (Some t)"
    and other: "user_id t \<noteq> user_id a"
    and same: "param_id req' = param_id req"
  shows "status_code (fst (delete_user e d req)) = 200
       \<and> users (snd (delete_user e d req)) = delete_one (\<lambda>u. user_id u = user_id t) (users d)
       \<and> (distinct (map user_id (users d)) \<longrightarrow>
            User_findById (snd (delete_user e d req)) (param_id req) = Inr None)
       \<and> posts (snd (delete_user e d req)) = filter (\<lambda>p. author p \<noteq> user_id t) (posts d)
       \<and> filter (\<lambda>p. author p = user_id t) (posts (snd (delete_user e d req))) = []
       \<and> response_posts (fst (author_posts (snd (delete_user e d req)) req')) = []
       \<and> (query req' = [] \<longrightarrow>
            fst (author_posts (snd (delete_user e d req)) req')
              = send 200 (PostsBody [] \<lparr>page = 1, limit = 10, total = 0, pages = 0\<rparr>))"
proof -
  let ?d' = "snd (delete_user e d req)"
  have run: "delete_user e d req
           = (send 200 (MessageBody ''User deleted successfully''),
              d\<lparr>posts := filter (\<lambda>p. author p \<noteq> user_id t) (posts d),
                users := delete_one (\<lambda>u. user_id u = user_id t) (users d)\<rparr>)"
    using admin target other by (rule delete_user_success)
  have us: "users ?d' = delete_one (\<lambda>u. user_id u = user_id t) (users d)"
    by (simp add: run)
  have ps: "posts ?d' = filter (\<lambda>p. author p \<noteq> user_id t) (posts d)"
    by (simp add: run)
  have gone: "filter (\<lambda>p. author p = user_id t) (posts ?d') = []"
    by (simp add: ps filter_empty_conv)
  have cast: "castObjectId (param_id req) = Some (user_id t)"
    using target by (rule User_findById_SomeD)
  have cast': "castObjectId (param_id req') = Some (user_id t)"
    unfolding same by (rule cast)
  have absent: "distinct (map user_id (users d)) \<longrightarrow> User_findById ?d' (param_id req) = Inr None"
    by (simp add: User_findById_def cast us find_delete_one_distinct)
  have st: "status_code (fst (delete_user e d req)) = 200"
    by (simp add: run send_def)
  show ?thesis
    using author_posts_of_absent_author [OF cast' gone] st us ps gone absent
    by blast
qed

theorem delete_user_cascades_to_posts_witness:
  "adminAuth sample_env sample_db
      (sample_request (Some ''Bearer admin-token'') (user_id alice) [] JUndefined) = Inr root_admin
   \<and> User_findById sample_db (user_id alice) = Inr (Some alice)
   \<and> user_id alice \<noteq> user_id root_admin
   \<and> distinct (map user_id (users sample_db))
   \<and> length (filter (\<lambda>p. author p = user_id alice) (posts sample_db)) = 2
   \<and> status_code (fst (delete_user sample_env sample_db
        (sample_request (Some ''Bearer admin-token'') (user_id alice) [] JUndefined))) = 200
   \<and> User_findById
        (snd (delete_user sample_env sample_db
           (sample_request (Some ''Bearer admin-token'') (user_id alice) [] JUndefined)))
        (user_id alice) = Inr None
   \<and> fst (author_posts
        (snd (delete_user sample_env sample_db
           (sample_request (Some ''Bearer admin-token'') (user_id alice) [] JUndefined)))
        (sample_request None (user_id alice) [] JUndefined))
       = send 200 (PostsBody [] \<lparr>page = 1, limit = 10, total = 0, pages = 0\<rparr>)"
proof -
  let ?req = "sample_request (Some ''Bearer admin-token'') (user_id alice) [] JUndefined"
  let ?req' = "sample_request None (user_id alice) [] JUndefined"
  have pid: "param_id ?req = user_id alice" and pid': "param_id ?req' = param_id ?req"
    and q: "query ?req' = []"
    by (simp_all add: sample_request_def)
  have h1: "adminAuth sample_env sample_db ?req = Inr root_admin"
    by code_simp
  have h2: "User_findById sample_db (param_id ?req) = Inr (Some alice)"
    unfolding pid by code_simp
  have h3: "user_id alice \<noteq> user_id root_admin"
    by code_simp
  have dist: "distinct (map user_id (users sample_db))"
    by code_simp
  have two: "length (filter (\<lambda>p. author p = user_id alice) (posts sample_db)) = 2"
    by code_simp
  have "status_code (fst (delete_user sample_env sample_db ?req)) = 200
      \<and> User_findById (snd (delete_user sample_env sample_db ?req)) (param_id ?req) = Inr None
      \<and> fst (author_posts (snd (delete_user sample_env sample_db ?req)) ?req')
          = send 200 (PostsBody [] \<lparr>page = 1, limit = 10, total = 0, pages = 0\<rparr>)"
    using delete_user_cascades_to_posts [OF h1 h2 h3 pid'] q dist by blast
  with h1 h2 h3 dist two show ?thesis
    unfolding pid by blast
qed

end
